theory Spec2Isabelle
  imports Main
begin

section \<open>Data model of package authz\<close>

type_synonym bytes = string

text \<open>
  Go's \<^verbatim>\<open>error\<close> values. \<^verbatim>\<open>errors.New\<close> makes a fresh error from a message and
  \<^verbatim>\<open>errors.Wrap\<close> wraps an existing one; errors coming out of the decoders are values
  of the same type.
\<close>

datatype error = errors_New string | errors_Wrap error

text \<open>
  The fields of \<^verbatim>\<open>pkix.Name\<close> that \<^verbatim>\<open>matchesX509\<close> reads. A nil slice and an empty
  slice both have length 0 and are the empty list here.
\<close>

record Name =
  CommonName :: string
  Country :: "string list"
  Organization :: "string list"
  OrganizationalUnit :: "string list"
  Locality :: "string list"
  Province :: "string list"
  StreetAddress :: "string list"
  PostalCode :: "string list"
  SerialNumber :: string

record Certificate =
  Subject :: Name

text \<open>
  Modelled from the spec: the declaration of \<^verbatim>\<open>Grant\<close> (generated protobuf code) is
  not among the sources; section 6 of the specification gives its four fields, and
  \<^verbatim>\<open>authorizer.go\<close> reads and writes exactly these.
\<close>

record Grant =
  GuardType :: string
  GuardData :: bytes
  Policy :: string
  CreatedAt :: string

text \<open>
  Modelled from the spec: package \<^verbatim>\<open>authn\<close> is not among the sources. The request
  context is read only through \<^verbatim>\<open>authn.Token\<close>, \<^verbatim>\<open>authn.X509Certs\<close> and
  \<^verbatim>\<open>authn.Localhost\<close>; the credential context of the specification is the record of
  what these three return (the token is the empty string when none was presented).
\<close>

record Context =
  Token :: string
  X509Certs :: "Certificate list"
  Localhost :: bool

record Request =
  RequestURI :: string
  reqContext :: Context

text \<open>
  Modelled from the spec: \<^verbatim>\<open>raft.Service\<close> is not among the sources. The authorizer
  only calls \<^verbatim>\<open>Stale().Get(key)\<close>, which yields the stored bytes or nil; the store is
  the map from keys to stored bytes, \<open>None\<close> standing for nil.
\<close>

type_synonym raft_Service = "string \<rightharpoonup> bytes"

record Authorizer =
  raftDB :: raft_Service
  raftPrefix :: string
  policyByRoute :: "string \<rightharpoonup> string list"
  extraGrants :: "string \<rightharpoonup> Grant list"

text \<open>
  The decoders are outside the sources (\<^verbatim>\<open>encoding/json\<close>, \<^verbatim>\<open>proto\<close>,
  \<^verbatim>\<open>chain/crypto/x509/name\<close>) and are parameters of the functions that call them:
  \<^item> \<open>json_Unmarshal data\<close> is the \<^verbatim>\<open>ID\<close> field of the target struct after the call,
    and the error returned, if any;
  \<^item> \<open>name_Parse s\<close> and \<open>name_Format n\<close> return an error or a result;
  \<^item> \<open>proto_Unmarshal data\<close> returns an error or the grants of the decoded
    \<^verbatim>\<open>GrantList\<close>.
\<close>

type_synonym json_decoder = "bytes \<Rightarrow> string \<times> error option"
type_synonym name_parser = "string \<Rightarrow> error + Name"
type_synonym name_formatter = "Name \<Rightarrow> error + string"
type_synonym proto_decoder = "bytes \<Rightarrow> error + Grant list"

section \<open>The authorizer\<close>

definition ErrNotAuthorized :: error where
  "ErrNotAuthorized = errors_New ''not authorized''"

definition builtinGrants :: "Grant list" where
  "builtinGrants = [\<lparr>GuardType = ''any'', GuardData = [], Policy = ''public'', CreatedAt = []\<rparr>]"

text \<open>Reading a Go map of slices at a missing key gives nil, the empty slice.\<close>

definition lookupGrants :: "(string \<rightharpoonup> Grant list) \<Rightarrow> string \<Rightarrow> Grant list" where
  "lookupGrants m p = (case m p of None \<Rightarrow> [] | Some gs \<Rightarrow> gs)"

definition appendGrant :: "(string \<rightharpoonup> Grant list) \<Rightarrow> string \<Rightarrow> Grant \<Rightarrow> (string \<rightharpoonup> Grant list)" where
  "appendGrant m p g = m(p \<mapsto> lookupGrants m p @ [g])"

definition NewAuthorizer :: "raft_Service \<Rightarrow> string \<Rightarrow> (string \<rightharpoonup> string list) \<Rightarrow> Authorizer" where
  "NewAuthorizer rdb prefix policyMap =
     \<lparr>raftDB = rdb, raftPrefix = prefix, policyByRoute = policyMap,
      extraGrants = foldl (\<lambda>m g. appendGrant m (Policy g) g) Map.empty builtinGrants\<rparr>"

text \<open>
  \<^verbatim>\<open>GrantInternal\<close> panics when \<^verbatim>\<open>name.Format\<close> fails, before it touches the
  authorizer; otherwise it appends to \<^verbatim>\<open>extraGrants["internal"]\<close>. The result is the
  panic value (or unit) and the authorizer after the call. \<open>now\<close> is
  \<^verbatim>\<open>time.Now().UTC().Format(time.RFC3339)\<close>.
\<close>

definition GrantInternal :: "name_formatter \<Rightarrow> string \<Rightarrow> Authorizer \<Rightarrow> Name \<Rightarrow> (error + unit) \<times> Authorizer" where
  "GrantInternal name_Format now a subj =
     (case name_Format subj of
        Inl err \<Rightarrow> (Inl err, a)
      | Inr data \<Rightarrow>
          (Inr (),
           a\<lparr>extraGrants := appendGrant (extraGrants a) ''internal''
                \<lparr>GuardType = ''x509'', GuardData = data, Policy = ''internal'', CreatedAt = now\<rparr>\<rparr>))"

definition accessTokenGuardData :: "json_decoder \<Rightarrow> Grant \<Rightarrow> string" where
  "accessTokenGuardData json_Unmarshal grant = fst (json_Unmarshal (GuardData grant))"

definition matchesString :: "string \<Rightarrow> string \<Rightarrow> bool" where
  "matchesString pat x = (pat = '''' \<or> pat = x)"

text \<open>The loop of \<^verbatim>\<open>matchesStrings\<close>: \<open>i\<close> is the index of the head of the rest of \<open>pat\<close>.\<close>

primrec matchesStrings_loop :: "nat \<Rightarrow> string list \<Rightarrow> string list \<Rightarrow> bool" where
  "matchesStrings_loop i [] x = True"
| "matchesStrings_loop i (s # pat) x =
     (if s \<noteq> x ! i then False else matchesStrings_loop (Suc i) pat x)"

definition matchesStrings :: "string list \<Rightarrow> string list \<Rightarrow> bool" where
  "matchesStrings pat x =
     (if length x < length pat then False else matchesStrings_loop 0 pat x)"

definition matchesX509 :: "Name \<Rightarrow> Name \<Rightarrow> bool" where
  "matchesX509 pat x =
     (matchesString (CommonName pat) (CommonName x) \<and>
      matchesStrings (Country pat) (Country x) \<and>
      matchesStrings (Organization pat) (Organization x) \<and>
      matchesStrings (OrganizationalUnit pat) (OrganizationalUnit x) \<and>
      matchesStrings (Locality pat) (Locality x) \<and>
      matchesStrings (Province pat) (Province x) \<and>
      matchesStrings (StreetAddress pat) (StreetAddress x) \<and>
      matchesStrings (PostalCode pat) (PostalCode x) \<and>
      matchesString (SerialNumber pat) (SerialNumber x))"

text \<open>The inner loop of the \<^verbatim>\<open>x509\<close> case: true as soon as one certificate matches.\<close>

primrec x509_loop :: "Name \<Rightarrow> Certificate list \<Rightarrow> bool" where
  "x509_loop pattern [] = False"
| "x509_loop pattern (cert # certs) =
     (if matchesX509 pattern (Subject cert) then True else x509_loop pattern certs)"

text \<open>
  \<^verbatim>\<open>authorized\<close>: the loop over the grants. A \<^verbatim>\<open>break\<close> inside the switch leaves the
  switch only, so a pattern that does not parse goes on with the next grant, as does a
  guard type that no case names.
\<close>

primrec authorized :: "json_decoder \<Rightarrow> name_parser \<Rightarrow> Context \<Rightarrow> Grant list \<Rightarrow> bool" where
  "authorized json_Unmarshal name_Parse ctx [] = False"
| "authorized json_Unmarshal name_Parse ctx (g # grants) =
     (if GuardType g = ''access_token'' then
        (if accessTokenGuardData json_Unmarshal g = Token ctx then True
         else authorized json_Unmarshal name_Parse ctx grants)
      else if GuardType g = ''x509'' then
        (case name_Parse (GuardData g) of
           Inl err \<Rightarrow> authorized json_Unmarshal name_Parse ctx grants
         | Inr pattern \<Rightarrow>
             (if x509_loop pattern (X509Certs ctx) then True
              else authorized json_Unmarshal name_Parse ctx grants))
      else if GuardType g = ''localhost'' then
        (if Localhost ctx then True else authorized json_Unmarshal name_Parse ctx grants)
      else if GuardType g = ''any'' then True
      else authorized json_Unmarshal name_Parse ctx grants)"

text \<open>
  \<^verbatim>\<open>grantsByPolicies\<close>: \<open>grants\<close> is the slice built so far. A decoding error returns
  at once with the wrapped error.
\<close>

primrec grantsByPolicies_loop :: "proto_decoder \<Rightarrow> Authorizer \<Rightarrow> Grant list \<Rightarrow> string list \<Rightarrow> error + Grant list" where
  "grantsByPolicies_loop proto_Unmarshal a grants [] = Inr grants"
| "grantsByPolicies_loop proto_Unmarshal a grants (p # policies) =
     (case raftDB a (raftPrefix a @ p) of
        None \<Rightarrow>
          grantsByPolicies_loop proto_Unmarshal a (grants @ lookupGrants (extraGrants a) p) policies
      | Some data \<Rightarrow>
          (case proto_Unmarshal data of
             Inl err \<Rightarrow> Inl (errors_Wrap err)
           | Inr grantList \<Rightarrow>
               grantsByPolicies_loop proto_Unmarshal a
                 ((grants @ lookupGrants (extraGrants a) p) @ grantList) policies))"

definition grantsByPolicies :: "proto_decoder \<Rightarrow> Authorizer \<Rightarrow> string list \<Rightarrow> error + Grant list" where
  "grantsByPolicies proto_Unmarshal a policies = grantsByPolicies_loop proto_Unmarshal a [] policies"

text \<open>\<^verbatim>\<open>strings.TrimRight(s, cutset)\<close>: drops every trailing character that is in the cutset.\<close>

definition TrimRight :: "string \<Rightarrow> string \<Rightarrow> string" where
  "TrimRight s cutset = rev (dropWhile (\<lambda>c. c \<in> set cutset) (rev s))"

definition Authorize :: "json_decoder \<Rightarrow> name_parser \<Rightarrow> proto_decoder \<Rightarrow> Authorizer \<Rightarrow> Request \<Rightarrow> error + unit" where
  "Authorize json_Unmarshal name_Parse proto_Unmarshal a req =
     (case policyByRoute a (TrimRight (RequestURI req) ''/'') of
        None \<Rightarrow> Inl (errors_New ''missing policy on this route'')
      | Some policies \<Rightarrow>
          (if length policies = 0 then Inl (errors_New ''missing policy on this route'')
           else
             (case grantsByPolicies proto_Unmarshal a policies of
                Inl err \<Rightarrow> Inl (errors_Wrap err)
              | Inr grants \<Rightarrow>
                  (if \<not> authorized json_Unmarshal name_Parse (reqContext req) grants
                   then Inl ErrNotAuthorized
                   else Inr ()))))"

section \<open>The specification's words, and the examples\<close>

text \<open>The zero value \<^verbatim>\<open>pkix.Name{}\<close>: every field empty.\<close>

definition emptyName :: Name where
  "emptyName = \<lparr>CommonName = [], Country = [], Organization = [], OrganizationalUnit = [],
     Locality = [], Province = [], StreetAddress = [], PostalCode = [], SerialNumber = []\<rparr>"

text \<open>
  The specification's rule for one multi-valued field: the pattern sequence is empty, or
  the subject's sequence is at least as long and its first \<open>length P\<close> elements are
  the pattern's, in order.
\<close>

definition spec_prefix_match :: "string list \<Rightarrow> string list \<Rightarrow> bool" where
  "spec_prefix_match P S = (P = [] \<or> (length P \<le> length S \<and> take (length P) S = P))"

text \<open>The specification's rule for one certificate subject against an x509 pattern.\<close>

definition spec_x509_match :: "Name \<Rightarrow> Name \<Rightarrow> bool" where
  "spec_x509_match P S =
     ((CommonName P = [] \<or> CommonName P = CommonName S) \<and>
      (SerialNumber P = [] \<or> SerialNumber P = SerialNumber S) \<and>
      spec_prefix_match (Organization P) (Organization S) \<and>
      spec_prefix_match (OrganizationalUnit P) (OrganizationalUnit S) \<and>
      spec_prefix_match (Country P) (Country S) \<and>
      spec_prefix_match (Locality P) (Locality S) \<and>
      spec_prefix_match (Province P) (Province S) \<and>
      spec_prefix_match (StreetAddress P) (StreetAddress S) \<and>
      spec_prefix_match (PostalCode P) (PostalCode S))"

text \<open>
  The specification's matcher for one grant (section 4.1): an access-token guard matches
  when its payload decodes and the id equals the presented token, an absent (empty) token
  matching nothing; an x509 guard matches when its pattern parses and some presented
  subject satisfies the rule above; a localhost guard matches loopback connections; an
  any guard always matches. A payload that does not decode, or a tag that is none of the
  four, is a non-match.
\<close>

definition spec_matches :: "json_decoder \<Rightarrow> name_parser \<Rightarrow> Context \<Rightarrow> Grant \<Rightarrow> bool" where
  "spec_matches json_Unmarshal name_Parse ctx g =
     (if GuardType g = ''access_token'' then
        (case snd (json_Unmarshal (GuardData g)) of
           Some err \<Rightarrow> False
         | None \<Rightarrow> fst (json_Unmarshal (GuardData g)) = Token ctx \<and> Token ctx \<noteq> '''')
      else if GuardType g = ''x509'' then
        (case name_Parse (GuardData g) of
           Inl err \<Rightarrow> False
         | Inr P \<Rightarrow> (\<exists>cert \<in> set (X509Certs ctx). spec_x509_match P (Subject cert)))
      else if GuardType g = ''localhost'' then Localhost ctx
      else if GuardType g = ''any'' then True
      else False)"

text \<open>
  What the store holds for one policy, decoded: nothing when the key is absent. Used to
  describe the list \<^verbatim>\<open>grantsByPolicies\<close> builds when no decoding fails.
\<close>

definition storedGrants :: "proto_decoder \<Rightarrow> Authorizer \<Rightarrow> string \<Rightarrow> Grant list" where
  "storedGrants proto_Unmarshal a p =
     (case raftDB a (raftPrefix a @ p) of
        None \<Rightarrow> []
      | Some data \<Rightarrow> (case proto_Unmarshal data of Inl err \<Rightarrow> [] | Inr grantList \<Rightarrow> grantList))"

text \<open>
  Concrete inputs for the examples below. The \<open>example_\<close> decoders stand in for the
  library decoders on the byte strings the examples use: a JSON object with an
  \<^verbatim>\<open>id\<close> member decodes to that id, anything else used here is a syntax error that
  leaves the \<^verbatim>\<open>ID\<close> field empty; a distinguished name decodes to its pattern.
\<close>

definition tokenGrant :: Grant where
  \<open>tokenGrant = \<lparr>GuardType = ''access_token'', GuardData = ''{"id":"tok123"}'',
      Policy = ''client-readwrite'', CreatedAt = ''2017-03-01T00:00:00Z''\<rparr>\<close>

definition emptyIdGrant :: Grant where
  \<open>emptyIdGrant = \<lparr>GuardType = ''access_token'', GuardData = ''{"id":""}'',
      Policy = ''client-readwrite'', CreatedAt = ''2017-03-01T00:00:00Z''\<rparr>\<close>

definition malformedTokenGrant :: Grant where
  \<open>malformedTokenGrant = \<lparr>GuardType = ''access_token'', GuardData = ''{"id":'',
      Policy = ''client-readwrite'', CreatedAt = ''2017-03-01T00:00:00Z''\<rparr>\<close>

definition acmeName :: Name where
  "acmeName = emptyName\<lparr>Organization := [''Acme'']\<rparr>"

definition acmeGrant :: Grant where
  "acmeGrant = \<lparr>GuardType = ''x509'', GuardData = ''O=Acme'',
      Policy = ''network'', CreatedAt = ''2017-03-01T00:00:00Z''\<rparr>"

definition example_json_Unmarshal :: json_decoder where
  \<open>example_json_Unmarshal data =
     (if data = ''{"id":"tok123"}'' then (''tok123'', None)
      else if data = ''{"id":""}'' then ('''', None)
      else ('''', Some (errors_New ''unexpected end of JSON input'')))\<close>

definition example_name_Parse :: name_parser where
  "example_name_Parse s =
     (if s = ''O=Acme'' then Inr acmeName
      else if s = '''' then Inr emptyName
      else Inl (errors_New ''invalid distinguished name''))"

text \<open>
  A subject with a comma in its common name. \<open>example_name_Format\<close> writes the comma
  unescaped, and \<open>example_name_Parse\<close> rejects the result: a formatter and a parser
  that do not round-trip on this subject.
\<close>

definition commaName :: Name where
  "commaName = emptyName\<lparr>CommonName := ''a,b''\<rparr>"

definition example_name_Format :: name_formatter where
  "example_name_Format n =
     (if n = acmeName then Inr ''O=Acme''
      else if n = emptyName then Inr ''''
      else if n = commaName then Inr ''CN=a,b''
      else Inl (errors_New ''cannot format name''))"

definition example_proto_Unmarshal :: proto_decoder where
  "example_proto_Unmarshal data =
     (if data = ''grants:tok123'' then Inr [tokenGrant]
      else if data = ''grants:acme'' then Inr [acmeGrant]
      else if data = ''grants:malformed-token'' then Inr [malformedTokenGrant]
      else if data = ''grants:empty-id'' then Inr [emptyIdGrant]
      else if data = [] then Inr []
      else Inl (errors_New ''proto: cannot parse''))"

definition example_policyMap :: "string \<rightharpoonup> string list" where
  "example_policyMap =
     Map.empty(''/accounts/create'' \<mapsto> [''client-readwrite''],
               ''/info'' \<mapsto> [''public''],
               ''/raft/join'' \<mapsto> [''internal''],
               ''/metrics'' \<mapsto> [''monitoring''],
               ''/unset'' \<mapsto> [])"

definition example_authorizer :: Authorizer where
  "example_authorizer =
     NewAuthorizer
       (Map.empty(''/core/grant/client-readwrite'' \<mapsto> ''grants:tok123'',
                  ''/core/grant/monitoring'' \<mapsto> ''garbage''))
       ''/core/grant/'' example_policyMap"

definition anonymous :: Context where
  "anonymous = \<lparr>Token = '''', X509Certs = [], Localhost = False\<rparr>"

section \<open>Properties of the matchers\<close>

lemma matchesStrings_loop_take:
  "i + length pat \<le> length x \<Longrightarrow>
   matchesStrings_loop i pat x = (take (length pat) (drop i x) = pat)"
proof (induction pat arbitrary: i)
  case Nil
  then show ?case by simp
next
  case (Cons s pat)
  from Cons.prems have lt: "i < length x" and le: "Suc i + length pat \<le> length x"
    by simp_all
  have dr: "drop i x = x ! i # drop (Suc i) x"
    using lt by (simp add: Cons_nth_drop_Suc)
  show ?case
    using Cons.IH [OF le] by (auto simp: dr)
qed

lemma matchesStrings_prefix:
  "matchesStrings pat x = (length pat \<le> length x \<and> take (length pat) x = pat)"
proof (cases "length x < length pat")
  case True
  then show ?thesis by (simp add: matchesStrings_def)
next
  case False
  then have "0 + length pat \<le> length x" by simp
  from matchesStrings_loop_take [OF this] False show ?thesis
    by (simp add: matchesStrings_def)
qed

lemma matchesStrings_spec: "matchesStrings pat x = spec_prefix_match pat x"
  by (auto simp: matchesStrings_prefix spec_prefix_match_def)

lemma matchesX509_spec: "matchesX509 pat x = spec_x509_match pat x"
  unfolding matchesX509_def spec_x509_match_def matchesStrings_spec matchesString_def
  by blast

lemma matchesX509_emptyName: "matchesX509 emptyName x"
  by (simp add: matchesX509_def matchesString_def matchesStrings_def emptyName_def)

lemma x509_loop_ex:
  "x509_loop pattern certs = (\<exists>cert \<in> set certs. matchesX509 pattern (Subject cert))"
  by (induction certs) auto

section \<open>Properties of the loop over the grants\<close>

lemma authorized_Cons:
  "authorized ju np ctx (g # grants) = (authorized ju np ctx [g] \<or> authorized ju np ctx grants)"
  by (auto split: sum.splits)

lemma authorized_ex:
  "authorized ju np ctx grants = (\<exists>g \<in> set grants. authorized ju np ctx [g])"
proof (induction grants)
  case Nil
  show ?case by simp
next
  case (Cons g grants)
  have "authorized ju np ctx (g # grants) = (authorized ju np ctx [g] \<or> authorized ju np ctx grants)"
    by (rule authorized_Cons)
  with Cons.IH show ?case by simp
qed

lemma authorized_append:
  "authorized ju np ctx (pre @ post) = (authorized ju np ctx pre \<or> authorized ju np ctx post)"
  by (subst (1 2 3) authorized_ex) auto

lemma authorized_skip:
  "\<not> authorized ju np ctx [g] \<Longrightarrow>
   authorized ju np ctx (pre @ g # post) = authorized ju np ctx (pre @ post)"
proof -
  assume no: "\<not> authorized ju np ctx [g]"
  have "authorized ju np ctx (pre @ g # post) =
        (authorized ju np ctx pre \<or> authorized ju np ctx (g # post))"
    by (rule authorized_append)
  also have "authorized ju np ctx (g # post) = authorized ju np ctx post"
    using no authorized_Cons [of ju np ctx g post] by blast
  also have "(authorized ju np ctx pre \<or> authorized ju np ctx post) =
        authorized ju np ctx (pre @ post)"
    by (rule authorized_append [symmetric])
  finally show ?thesis .
qed

lemma authorized_access_token_single:
  "GuardType g = ''access_token'' \<Longrightarrow>
   authorized ju np ctx [g] = (accessTokenGuardData ju g = Token ctx)"
  by simp

lemma authorized_x509_single:
  "GuardType g = ''x509'' \<Longrightarrow>
   authorized ju np ctx [g] =
     (case np (GuardData g) of Inl err \<Rightarrow> False | Inr pattern \<Rightarrow> x509_loop pattern (X509Certs ctx))"
  by (simp split: sum.splits)

section \<open>Properties of the merged fetch\<close>

lemma grantsByPolicies_loop_Inl:
  "(\<exists>e. grantsByPolicies_loop pu a grants policies = Inl e) =
   (\<exists>p \<in> set policies. \<exists>data err. raftDB a (raftPrefix a @ p) = Some data \<and> pu data = Inl err)"
  by (induction policies arbitrary: grants) (auto split: option.splits sum.splits)


lemma grantsByPolicies_loop_Inr:
  "grantsByPolicies_loop pu a grants policies = Inr G \<Longrightarrow>
   G = grants @ concat (map (\<lambda>p. lookupGrants (extraGrants a) p @ storedGrants pu a p) policies)"
proof (induction policies arbitrary: grants)
  case Nil
  then show ?case by simp
next
  case (Cons p policies)
  show ?case
  proof (cases "raftDB a (raftPrefix a @ p)")
    case None
    with Cons.prems
    have "grantsByPolicies_loop pu a (grants @ lookupGrants (extraGrants a) p) policies = Inr G"
      by simp
    from Cons.IH [OF this] None show ?thesis
      by (simp add: storedGrants_def)
  next
    case (Some data)
    show ?thesis
    proof (cases "pu data")
      case (Inl err)
      with Some Cons.prems show ?thesis by simp
    next
      case (Inr grantList)
      with Some Cons.prems
      have "grantsByPolicies_loop pu a ((grants @ lookupGrants (extraGrants a) p) @ grantList) policies = Inr G"
        by simp
      from Cons.IH [OF this] Some Inr show ?thesis
        by (simp add: storedGrants_def)
    qed
  qed
qed

lemma grantsByPolicies_Inr:
  "grantsByPolicies pu a policies = Inr G \<Longrightarrow>
   G = concat (map (\<lambda>p. lookupGrants (extraGrants a) p @ storedGrants pu a p) policies)"
  using grantsByPolicies_loop_Inr [of pu a "[]" policies G] by (simp add: grantsByPolicies_def)

lemma grantsByPolicies_loop_cong:
  "raftDB a' = raftDB a \<Longrightarrow> raftPrefix a' = raftPrefix a \<Longrightarrow>
   \<forall>p \<in> set policies. lookupGrants (extraGrants a') p = lookupGrants (extraGrants a) p \<Longrightarrow>
   grantsByPolicies_loop pu a' grants policies = grantsByPolicies_loop pu a grants policies"
  by (induction policies arbitrary: grants) (auto split: option.splits sum.splits)

section \<open>Properties of \<^verbatim>\<open>Authorize\<close>\<close>

lemma Authorize_or_over_grants:
  assumes "policyByRoute a (TrimRight (RequestURI req) ''/'') = Some policies"
    and "policies \<noteq> []"
    and "grantsByPolicies pu a policies = Inr G"
  shows "(Authorize ju np pu a req = Inr () \<longleftrightarrow>
            (\<exists>g \<in> set G. authorized ju np (reqContext req) [g])) \<and>
         ((\<forall>g \<in> set G. \<not> authorized ju np (reqContext req) [g]) \<longrightarrow>
            Authorize ju np pu a req = Inl ErrNotAuthorized)"
proof -
  have A: "Authorize ju np pu a req =
      (if \<not> authorized ju np (reqContext req) G then Inl ErrNotAuthorized else Inr ())"
    using assms by (simp add: Authorize_def)
  have E: "authorized ju np (reqContext req) G =
      (\<exists>g \<in> set G. authorized ju np (reqContext req) [g])"
    by (rule authorized_ex)
  show ?thesis
    unfolding A using E by auto
qed

text \<open>
  The loop's answer on one grant is the specification's matcher, except on an
  access-token grant whose decoded id equals the token while the token is empty or the
  decoding reported an error.
\<close>

lemma authorized_single_spec:
  assumes "GuardType g = ''access_token'' \<and> fst (ju (GuardData g)) = Token ctx \<longrightarrow>
           Token ctx \<noteq> '''' \<and> snd (ju (GuardData g)) = None"
  shows "authorized ju np ctx [g] = spec_matches ju np ctx g"
proof (cases "GuardType g = ''access_token''")
  case True
  with assms show ?thesis
    by (auto simp: spec_matches_def accessTokenGuardData_def split: option.splits)
next
  case False
  then show ?thesis
    by (auto simp: spec_matches_def x509_loop_ex matchesX509_spec split: sum.splits)
qed

section \<open>The claims\<close>

text \<open>
  Claim C2. An x509 guard whose pattern parses to \<open>P\<close> matches exactly when some presented
  certificate subject satisfies the specification's rule: common name and serial number
  empty or equal, and every multi-valued field of \<open>P\<close> empty or a prefix of the
  subject's. The pattern with organization \<open>[Acme]\<close> matches a subject with organization
  \<open>[Acme, Eng]\<close> and matches neither \<open>[Other]\<close> nor the empty organization.
\<close>

theorem x509_guard_matches_iff_prefix_match:
  assumes "GuardType g = ''x509''" and "np (GuardData g) = Inr P"
  shows "(authorized ju np ctx [g] \<longleftrightarrow>
            (\<exists>cert \<in> set (X509Certs ctx). spec_x509_match P (Subject cert))) \<and>
         (Organization S = [''Acme'', ''Eng''] \<longrightarrow> matchesX509 acmeName S) \<and>
         (Organization S = [''Other''] \<longrightarrow> \<not> matchesX509 acmeName S) \<and>
         (Organization S = [] \<longrightarrow> \<not> matchesX509 acmeName S)"
proof -
  have "authorized ju np ctx [g] = x509_loop P (X509Certs ctx)"
    using assms by (simp add: authorized_x509_single)
  then have 1: "authorized ju np ctx [g] \<longleftrightarrow>
            (\<exists>cert \<in> set (X509Certs ctx). spec_x509_match P (Subject cert))"
    by (simp add: x509_loop_ex matchesX509_spec)
  have 2: "Organization S = [''Acme'', ''Eng''] \<longrightarrow> matchesX509 acmeName S"
    by (simp add: matchesX509_spec spec_x509_match_def spec_prefix_match_def
        acmeName_def emptyName_def)
  have 3: "Organization S = [''Other''] \<longrightarrow> \<not> matchesX509 acmeName S"
    by (simp add: matchesX509_spec spec_x509_match_def spec_prefix_match_def
        acmeName_def emptyName_def)
  have 4: "Organization S = [] \<longrightarrow> \<not> matchesX509 acmeName S"
    by (simp add: matchesX509_spec spec_x509_match_def spec_prefix_match_def
        acmeName_def emptyName_def)
  from 1 2 3 4 show ?thesis by blast
qed

text \<open>
  Claim C9. An x509 guard never matches a context that presents no certificate, whatever
  its pattern; and an x509 guard whose pattern parses to the all-empty name matches every
  context that presents at least one certificate.
\<close>

theorem x509_guard_needs_a_certificate:
  assumes "GuardType g = ''x509''"
  shows "(X509Certs ctx = [] \<longrightarrow> \<not> authorized ju np ctx [g]) \<and>
         (np (GuardData g) = Inr emptyName \<and> X509Certs ctx \<noteq> [] \<longrightarrow> authorized ju np ctx [g])"
proof -
  have 1: "X509Certs ctx = [] \<longrightarrow> \<not> authorized ju np ctx [g]"
    using assms by (simp add: authorized_x509_single split: sum.splits)
  have 2: "np (GuardData g) = Inr emptyName \<and> X509Certs ctx \<noteq> [] \<longrightarrow> authorized ju np ctx [g]"
    using assms matchesX509_emptyName
    by (cases "X509Certs ctx") (simp_all add: authorized_x509_single)
  from 1 2 show ?thesis by blast
qed

text \<open>
  Claim C10. A grant whose guard type is none of \<^verbatim>\<open>access_token\<close>, \<^verbatim>\<open>x509\<close>,
  \<^verbatim>\<open>localhost\<close> and \<^verbatim>\<open>any\<close> matches no context, and the loop gives the same
  answer with the grant as without it, wherever it stands in the list.
\<close>

theorem unknown_guard_type_is_a_non_match:
  assumes "GuardType g \<notin> {''access_token'', ''x509'', ''localhost'', ''any''}"
  shows "\<not> authorized ju np ctx [g] \<and>
         authorized ju np ctx (g # grants) = authorized ju np ctx grants \<and>
         authorized ju np ctx (pre @ g # grants) = authorized ju np ctx (pre @ grants)"
proof -
  have 1: "\<not> authorized ju np ctx [g]"
    using assms by simp
  have 2: "authorized ju np ctx (g # grants) = authorized ju np ctx grants"
    using assms by simp
  have 3: "authorized ju np ctx (pre @ g # grants) = authorized ju np ctx (pre @ grants)"
    using 1 by (rule authorized_skip)
  from 1 2 3 show ?thesis by blast
qed

text \<open>
  Claim C4. When the trailing-slash-trimmed route has no entry in the policy map, or an
  empty list, \<^verbatim>\<open>Authorize\<close> fails with the missing-policy error, which is not
  \<^verbatim>\<open>ErrNotAuthorized\<close>; the answer is the same for every context, every content of
  the store and every set of process-local grants.
\<close>

theorem missing_policy_is_a_distinct_error:
  assumes "policyByRoute a (TrimRight (RequestURI req) ''/'') = None \<or>
           policyByRoute a (TrimRight (RequestURI req) ''/'') = Some []"
  shows "Authorize ju np pu a req = Inl (errors_New ''missing policy on this route'') \<and>
         Authorize ju np pu (a\<lparr>raftDB := db, extraGrants := eg\<rparr>) (req\<lparr>reqContext := ctx\<rparr>) =
           Inl (errors_New ''missing policy on this route'') \<and>
         errors_New ''missing policy on this route'' \<noteq> ErrNotAuthorized"
proof -
  have 1: "Authorize ju np pu a req = Inl (errors_New ''missing policy on this route'')"
    using assms by (auto simp: Authorize_def)
  have 2: "Authorize ju np pu (a\<lparr>raftDB := db, extraGrants := eg\<rparr>) (req\<lparr>reqContext := ctx\<rparr>) =
           Inl (errors_New ''missing policy on this route'')"
    using assms by (auto simp: Authorize_def)
  have 3: "errors_New ''missing policy on this route'' \<noteq> ErrNotAuthorized"
    by (simp add: ErrNotAuthorized_def)
  from 1 2 3 show ?thesis by blast
qed



text \<open>
  Claim C8. After \<^verbatim>\<open>GrantInternal\<close> on a subject that formats to \<open>data\<close>, the x509
  grant for that pattern under policy \<^verbatim>\<open>internal\<close> is the last process-local grant of
  that policy and is in the result of every later successful fetch that names
  \<^verbatim>\<open>internal\<close>; the store, its key prefix, the route map and the process-local grants
  of every other policy are unchanged, a fetch that does not name \<^verbatim>\<open>internal\<close>
  returns what it returned before, and a fetch fails after the call exactly if it failed
  before.
\<close>

theorem GrantInternal_adds_only_a_local_internal_grant:
  assumes "nf subj = Inr data"
    and "GrantInternal nf now a subj = (r, a')"
  shows "r = Inr () \<and>
         raftDB a' = raftDB a \<and> raftPrefix a' = raftPrefix a \<and> policyByRoute a' = policyByRoute a \<and>
         lookupGrants (extraGrants a') ''internal'' =
           lookupGrants (extraGrants a) ''internal'' @
             [\<lparr>GuardType = ''x509'', GuardData = data, Policy = ''internal'', CreatedAt = now\<rparr>] \<and>
         (\<forall>p. p \<noteq> ''internal'' \<longrightarrow> extraGrants a' p = extraGrants a p) \<and>
         (\<forall>ps. ''internal'' \<notin> set ps \<longrightarrow> grantsByPolicies pu a' ps = grantsByPolicies pu a ps) \<and>
         (\<forall>ps G. ''internal'' \<in> set ps \<and> grantsByPolicies pu a' ps = Inr G \<longrightarrow>
            \<lparr>GuardType = ''x509'', GuardData = data, Policy = ''internal'', CreatedAt = now\<rparr> \<in> set G) \<and>
         (\<forall>ps. (\<exists>e. grantsByPolicies pu a' ps = Inl e) = (\<exists>e. grantsByPolicies pu a ps = Inl e))"
proof -
  let ?g = "\<lparr>GuardType = ''x509'', GuardData = data, Policy = ''internal'', CreatedAt = now\<rparr>"
  from assms have r: "r = Inr ()"
    and a': "a' = a\<lparr>extraGrants := appendGrant (extraGrants a) ''internal'' ?g\<rparr>"
    by (simp_all add: GrantInternal_def)
  have db: "raftDB a' = raftDB a" and pre: "raftPrefix a' = raftPrefix a"
    and pm: "policyByRoute a' = policyByRoute a"
    by (simp_all add: a')
  have int: "lookupGrants (extraGrants a') ''internal'' = lookupGrants (extraGrants a) ''internal'' @ [?g]"
    by (simp add: a' appendGrant_def lookupGrants_def)
  have other: "extraGrants a' p = extraGrants a p" if "p \<noteq> ''internal''" for p
    using that by (simp add: a' appendGrant_def)
  have same: "grantsByPolicies pu a' ps = grantsByPolicies pu a ps" if "''internal'' \<notin> set ps" for ps
  proof -
    have "lookupGrants (extraGrants a') p = lookupGrants (extraGrants a) p" if "p \<in> set ps" for p
    proof -
      from \<open>''internal'' \<notin> set ps\<close> that have "p \<noteq> ''internal''" by blast
      from other [OF this] show ?thesis by (simp add: lookupGrants_def)
    qed
    then have "\<forall>p \<in> set ps. lookupGrants (extraGrants a') p = lookupGrants (extraGrants a) p"
      by blast
    from grantsByPolicies_loop_cong [OF db pre this] show ?thesis
      by (simp add: grantsByPolicies_def)
  qed
  have seen: "?g \<in> set G" if "''internal'' \<in> set ps" and "grantsByPolicies pu a' ps = Inr G" for ps G
  proof -
    from grantsByPolicies_Inr [OF that(2)]
    have "set (lookupGrants (extraGrants a') ''internal'') \<subseteq> set G"
      using that(1) by auto
    with int show ?thesis by simp
  qed
  have fails: "(\<exists>e. grantsByPolicies pu a' ps = Inl e) = (\<exists>e. grantsByPolicies pu a ps = Inl e)" for ps
    unfolding grantsByPolicies_def grantsByPolicies_loop_Inl by (simp add: db pre)
  from r db pre pm int other same seen fails show ?thesis by blast
qed

section \<open>The claims at concrete inputs\<close>

lemma example_fetch_client_readwrite:
  "grantsByPolicies example_proto_Unmarshal example_authorizer [''client-readwrite''] = Inr [tokenGrant]"
  by (simp add: grantsByPolicies_def example_authorizer_def NewAuthorizer_def builtinGrants_def
      appendGrant_def lookupGrants_def example_proto_Unmarshal_def)

theorem x509_guard_matches_iff_prefix_match_witness:
  "GuardType acmeGrant = ''x509'' \<and>
   example_name_Parse (GuardData acmeGrant) = Inr acmeName \<and>
   authorized example_json_Unmarshal example_name_Parse
     (anonymous\<lparr>X509Certs := [\<lparr>Subject = emptyName\<lparr>Organization := [''Acme'', ''Eng'']\<rparr>\<rparr>]\<rparr>) [acmeGrant] \<and>
   \<not> authorized example_json_Unmarshal example_name_Parse
     (anonymous\<lparr>X509Certs := [\<lparr>Subject = emptyName\<lparr>Organization := [''Other'']\<rparr>\<rparr>]\<rparr>) [acmeGrant]"
proof -
  have ty: "GuardType acmeGrant = ''x509''"
    by (simp add: acmeGrant_def)
  have pa: "example_name_Parse (GuardData acmeGrant) = Inr acmeName"
    by (simp add: acmeGrant_def example_name_Parse_def)
  have yes: "\<exists>cert \<in> set (X509Certs (anonymous\<lparr>X509Certs := [\<lparr>Subject = emptyName\<lparr>Organization := [''Acme'', ''Eng'']\<rparr>\<rparr>]\<rparr>)).
      spec_x509_match acmeName (Subject cert)"
    by (simp add: spec_x509_match_def spec_prefix_match_def acmeName_def emptyName_def)
  have no: "\<not> (\<exists>cert \<in> set (X509Certs (anonymous\<lparr>X509Certs := [\<lparr>Subject = emptyName\<lparr>Organization := [''Other'']\<rparr>\<rparr>]\<rparr>)).
      spec_x509_match acmeName (Subject cert))"
    by (simp add: spec_x509_match_def spec_prefix_match_def acmeName_def emptyName_def)
  from x509_guard_matches_iff_prefix_match
    [where g = acmeGrant and np = example_name_Parse and P = acmeName
       and ju = example_json_Unmarshal
       and ctx = "anonymous\<lparr>X509Certs := [\<lparr>Subject = emptyName\<lparr>Organization := [''Acme'', ''Eng'']\<rparr>\<rparr>]\<rparr>"]
    ty pa yes
  have m1: "authorized example_json_Unmarshal example_name_Parse
     (anonymous\<lparr>X509Certs := [\<lparr>Subject = emptyName\<lparr>Organization := [''Acme'', ''Eng'']\<rparr>\<rparr>]\<rparr>) [acmeGrant]"
    by blast
  from x509_guard_matches_iff_prefix_match
    [where g = acmeGrant and np = example_name_Parse and P = acmeName
       and ju = example_json_Unmarshal
       and ctx = "anonymous\<lparr>X509Certs := [\<lparr>Subject = emptyName\<lparr>Organization := [''Other'']\<rparr>\<rparr>]\<rparr>"]
    ty pa no
  have m2: "\<not> authorized example_json_Unmarshal example_name_Parse
     (anonymous\<lparr>X509Certs := [\<lparr>Subject = emptyName\<lparr>Organization := [''Other'']\<rparr>\<rparr>]\<rparr>) [acmeGrant]"
    by blast
  from ty pa m1 m2 show ?thesis by blast
qed

theorem x509_guard_needs_a_certificate_witness:
  "GuardType (acmeGrant\<lparr>GuardData := ''''\<rparr>) = ''x509'' \<and>
   X509Certs anonymous = [] \<and>
   \<not> authorized example_json_Unmarshal example_name_Parse anonymous [acmeGrant\<lparr>GuardData := ''''\<rparr>] \<and>
   example_name_Parse (GuardData (acmeGrant\<lparr>GuardData := ''''\<rparr>)) = Inr emptyName \<and>
   X509Certs (anonymous\<lparr>X509Certs := [\<lparr>Subject = acmeName\<rparr>]\<rparr>) \<noteq> [] \<and>
   authorized example_json_Unmarshal example_name_Parse
     (anonymous\<lparr>X509Certs := [\<lparr>Subject = acmeName\<rparr>]\<rparr>) [acmeGrant\<lparr>GuardData := ''''\<rparr>]"
proof -
  have ty: "GuardType (acmeGrant\<lparr>GuardData := ''''\<rparr>) = ''x509''"
    by (simp add: acmeGrant_def)
  have none: "X509Certs anonymous = []"
    by (simp add: anonymous_def)
  have pa: "example_name_Parse (GuardData (acmeGrant\<lparr>GuardData := ''''\<rparr>)) = Inr emptyName"
    by (simp add: example_name_Parse_def)
  have some: "X509Certs (anonymous\<lparr>X509Certs := [\<lparr>Subject = acmeName\<rparr>]\<rparr>) \<noteq> []"
    by simp
  from x509_guard_needs_a_certificate [OF ty, of anonymous example_json_Unmarshal example_name_Parse] none
  have m1: "\<not> authorized example_json_Unmarshal example_name_Parse anonymous [acmeGrant\<lparr>GuardData := ''''\<rparr>]"
    by blast
  from x509_guard_needs_a_certificate [OF ty, of "anonymous\<lparr>X509Certs := [\<lparr>Subject = acmeName\<rparr>]\<rparr>"
      example_json_Unmarshal example_name_Parse] pa some
  have m2: "authorized example_json_Unmarshal example_name_Parse
     (anonymous\<lparr>X509Certs := [\<lparr>Subject = acmeName\<rparr>]\<rparr>) [acmeGrant\<lparr>GuardData := ''''\<rparr>]"
    by blast
  from ty none m1 pa some m2 show ?thesis by blast
qed

theorem unknown_guard_type_is_a_non_match_witness:
  "GuardType (tokenGrant\<lparr>GuardType := ''ldap''\<rparr>) \<notin> {''access_token'', ''x509'', ''localhost'', ''any''} \<and>
   \<not> authorized example_json_Unmarshal example_name_Parse (anonymous\<lparr>Token := ''tok123''\<rparr>)
       [tokenGrant\<lparr>GuardType := ''ldap''\<rparr>] \<and>
   authorized example_json_Unmarshal example_name_Parse (anonymous\<lparr>Token := ''tok123''\<rparr>)
       [tokenGrant\<lparr>GuardType := ''ldap''\<rparr>, tokenGrant]"
proof -
  have ty: "GuardType (tokenGrant\<lparr>GuardType := ''ldap''\<rparr>) \<notin> {''access_token'', ''x509'', ''localhost'', ''any''}"
    by simp
  have rest: "authorized example_json_Unmarshal example_name_Parse (anonymous\<lparr>Token := ''tok123''\<rparr>) [tokenGrant]"
    by (simp add: tokenGrant_def accessTokenGuardData_def example_json_Unmarshal_def anonymous_def)
  from unknown_guard_type_is_a_non_match [OF ty, of example_json_Unmarshal example_name_Parse
      "anonymous\<lparr>Token := ''tok123''\<rparr>" "[tokenGrant]" "[]"] rest
  show ?thesis
    using ty by blast
qed

theorem missing_policy_is_a_distinct_error_witness:
  "policyByRoute example_authorizer (TrimRight ''/status/'' ''/'') = None \<and>
   authorized example_json_Unmarshal example_name_Parse (anonymous\<lparr>Token := ''tok123''\<rparr>) [tokenGrant] \<and>
   Authorize example_json_Unmarshal example_name_Parse example_proto_Unmarshal example_authorizer
     \<lparr>RequestURI = ''/status/'', reqContext = anonymous\<lparr>Token := ''tok123''\<rparr>\<rparr> =
       Inl (errors_New ''missing policy on this route'') \<and>
   policyByRoute example_authorizer (TrimRight ''/unset'' ''/'') = Some [] \<and>
   Authorize example_json_Unmarshal example_name_Parse example_proto_Unmarshal example_authorizer
     \<lparr>RequestURI = ''/unset'', reqContext = anonymous\<rparr> =
       Inl (errors_New ''missing policy on this route'')"
proof -
  have r1: "policyByRoute example_authorizer (TrimRight ''/status/'' ''/'') = None"
    by (simp add: example_authorizer_def NewAuthorizer_def example_policyMap_def TrimRight_def)
  have r2: "policyByRoute example_authorizer (TrimRight ''/unset'' ''/'') = Some []"
    by (simp add: example_authorizer_def NewAuthorizer_def example_policyMap_def TrimRight_def)
  have m: "authorized example_json_Unmarshal example_name_Parse (anonymous\<lparr>Token := ''tok123''\<rparr>) [tokenGrant]"
    by (simp add: tokenGrant_def accessTokenGuardData_def example_json_Unmarshal_def anonymous_def)
  from missing_policy_is_a_distinct_error
    [where a = example_authorizer
       and req = "\<lparr>RequestURI = ''/status/'', reqContext = anonymous\<lparr>Token := ''tok123''\<rparr>\<rparr>"
       and ju = example_json_Unmarshal and np = example_name_Parse and pu = example_proto_Unmarshal]
    r1
  have e1: "Authorize example_json_Unmarshal example_name_Parse example_proto_Unmarshal example_authorizer
     \<lparr>RequestURI = ''/status/'', reqContext = anonymous\<lparr>Token := ''tok123''\<rparr>\<rparr> =
       Inl (errors_New ''missing policy on this route'')"
    by simp
  from missing_policy_is_a_distinct_error
    [where a = example_authorizer
       and req = "\<lparr>RequestURI = ''/unset'', reqContext = anonymous\<rparr>"
       and ju = example_json_Unmarshal and np = example_name_Parse and pu = example_proto_Unmarshal]
    r2
  have e2: "Authorize example_json_Unmarshal example_name_Parse example_proto_Unmarshal example_authorizer
     \<lparr>RequestURI = ''/unset'', reqContext = anonymous\<rparr> =
       Inl (errors_New ''missing policy on this route'')"
    by simp
  from r1 m e1 r2 e2 show ?thesis by blast
qed



theorem GrantInternal_adds_only_a_local_internal_grant_witness:
  "example_name_Format acmeName = Inr ''O=Acme'' \<and>
   fst (GrantInternal example_name_Format ''2017-03-01T00:00:00Z'' example_authorizer acmeName) = Inr () \<and>
   grantsByPolicies example_proto_Unmarshal
     (snd (GrantInternal example_name_Format ''2017-03-01T00:00:00Z'' example_authorizer acmeName))
     [''internal''] =
       Inr [\<lparr>GuardType = ''x509'', GuardData = ''O=Acme'', Policy = ''internal'',
             CreatedAt = ''2017-03-01T00:00:00Z''\<rparr>] \<and>
   raftDB (snd (GrantInternal example_name_Format ''2017-03-01T00:00:00Z'' example_authorizer acmeName)) =
     raftDB example_authorizer \<and>
   grantsByPolicies example_proto_Unmarshal
     (snd (GrantInternal example_name_Format ''2017-03-01T00:00:00Z'' example_authorizer acmeName))
     [''client-readwrite''] = Inr [tokenGrant]"
proof -
  let ?res = "GrantInternal example_name_Format ''2017-03-01T00:00:00Z'' example_authorizer acmeName"
  let ?g = "\<lparr>GuardType = ''x509'', GuardData = ''O=Acme'', Policy = ''internal'',
             CreatedAt = ''2017-03-01T00:00:00Z''\<rparr>"
  have f: "example_name_Format acmeName = Inr ''O=Acme''"
    by (simp add: example_name_Format_def)
  have p: "?res = (fst ?res, snd ?res)"
    by simp
  note frame = GrantInternal_adds_only_a_local_internal_grant
    [where nf = example_name_Format and subj = acmeName and data = "''O=Acme''"
       and now = "''2017-03-01T00:00:00Z''" and a = example_authorizer
       and r = "fst ?res" and a' = "snd ?res" and pu = example_proto_Unmarshal,
     OF f p]
  from frame have r: "fst ?res = Inr ()" and db: "raftDB (snd ?res) = raftDB example_authorizer"
    by blast+
  have "''internal'' \<notin> set [''client-readwrite'']"
    by simp
  with frame have "grantsByPolicies example_proto_Unmarshal (snd ?res) [''client-readwrite''] =
      grantsByPolicies example_proto_Unmarshal example_authorizer [''client-readwrite'']"
    by blast
  then have other: "grantsByPolicies example_proto_Unmarshal (snd ?res) [''client-readwrite''] = Inr [tokenGrant]"
    by (simp only: example_fetch_client_readwrite)
  from frame have "lookupGrants (extraGrants (snd ?res)) ''internal'' =
      lookupGrants (extraGrants example_authorizer) ''internal'' @ [?g]"
    by blast
  then have int: "lookupGrants (extraGrants (snd ?res)) ''internal'' = [?g]"
    by (simp add: example_authorizer_def NewAuthorizer_def builtinGrants_def appendGrant_def
        lookupGrants_def)
  have none: "raftDB (snd ?res) (raftPrefix (snd ?res) @ ''internal'') = None"
    using frame by (simp add: example_authorizer_def NewAuthorizer_def)
  have new: "grantsByPolicies example_proto_Unmarshal (snd ?res) [''internal''] = Inr [?g]"
    by (simp add: grantsByPolicies_def none int)
  from f r new db other show ?thesis by blast
qed


section \<open>Where the access-token case departs from the claims\<close>

text \<open>
  Claim C1. The claim says that \<^verbatim>\<open>Authorize\<close> succeeds only if some fetched grant
  matches the context. Here the route resolves, the fetch returns one access-token grant
  with the empty id, the request presents no credentials and the specification's matcher
  finds no matching grant; the code authorizes the request all the same, because its
  comparison lets the empty id equal the absent token.
\<close>

theorem Authorize_permits_although_no_grant_matches:
  "policyByRoute
     (NewAuthorizer (Map.empty(''/core/grant/client-readwrite'' \<mapsto> ''grants:empty-id''))
        ''/core/grant/'' example_policyMap)
     (TrimRight ''/accounts/create'' ''/'') = Some [''client-readwrite''] \<and>
   grantsByPolicies example_proto_Unmarshal
     (NewAuthorizer (Map.empty(''/core/grant/client-readwrite'' \<mapsto> ''grants:empty-id''))
        ''/core/grant/'' example_policyMap)
     [''client-readwrite''] = Inr [emptyIdGrant] \<and>
   \<not> (\<exists>g \<in> set [emptyIdGrant]. spec_matches example_json_Unmarshal example_name_Parse anonymous g) \<and>
   Authorize example_json_Unmarshal example_name_Parse example_proto_Unmarshal
     (NewAuthorizer (Map.empty(''/core/grant/client-readwrite'' \<mapsto> ''grants:empty-id''))
        ''/core/grant/'' example_policyMap)
     \<lparr>RequestURI = ''/accounts/create'', reqContext = anonymous\<rparr> = Inr ()"
  by (simp add: anonymous_def emptyIdGrant_def accessTokenGuardData_def spec_matches_def
      example_json_Unmarshal_def Authorize_def NewAuthorizer_def example_policyMap_def
      TrimRight_def grantsByPolicies_def builtinGrants_def appendGrant_def lookupGrants_def
      example_proto_Unmarshal_def)

text \<open>
  Claim C3. The claim says that an absent (empty) token satisfies no access-token guard.
  In the code the comparison is plain equality of the decoded id and the token, so a
  guard whose id is the empty string matches the context that presents no token.
\<close>

theorem access_token_guard_with_empty_id_matches_absent_token:
  "Token anonymous = '''' \<and>
   accessTokenGuardData example_json_Unmarshal emptyIdGrant = '''' \<and>
   authorized example_json_Unmarshal example_name_Parse anonymous [emptyIdGrant]"
  by (simp add: anonymous_def emptyIdGrant_def accessTokenGuardData_def example_json_Unmarshal_def)

text \<open>
  Claim C5. The claim says that a grant whose payload does not decode is a non-match.
  For an access-token grant the decoding error is dropped and the id is left empty, so
  the grant matches the context that presents no token: a request without credentials
  is authorized on a route whose policy holds such a grant.
\<close>

theorem malformed_access_token_grant_authorizes_anonymous_request:
  "snd (example_json_Unmarshal (GuardData malformedTokenGrant)) =
     Some (errors_New ''unexpected end of JSON input'') \<and>
   authorized example_json_Unmarshal example_name_Parse anonymous [malformedTokenGrant] \<and>
   Authorize example_json_Unmarshal example_name_Parse example_proto_Unmarshal
     (NewAuthorizer (Map.empty(''/core/grant/client-readwrite'' \<mapsto> ''grants:malformed-token''))
        ''/core/grant/'' example_policyMap)
     \<lparr>RequestURI = ''/accounts/create'', reqContext = anonymous\<rparr> = Inr ()"
  by (simp add: anonymous_def malformedTokenGrant_def accessTokenGuardData_def
      example_json_Unmarshal_def Authorize_def NewAuthorizer_def example_policyMap_def
      TrimRight_def grantsByPolicies_def builtinGrants_def appendGrant_def lookupGrants_def
      example_proto_Unmarshal_def)

section \<open>Further properties of the code\<close>

text \<open>
  An access-token guard matches exactly when the id decoded from its payload equals the
  token of the context, character for character.
\<close>

theorem access_token_guard_matches_iff_id_equals_token:
  assumes "GuardType g = ''access_token''"
  shows "authorized ju np ctx [g] \<longleftrightarrow> fst (ju (GuardData g)) = Token ctx"
  using assms by (simp add: accessTokenGuardData_def)

theorem access_token_guard_matches_iff_id_equals_token_witness:
  "GuardType tokenGrant = ''access_token'' \<and>
   authorized example_json_Unmarshal example_name_Parse (anonymous\<lparr>Token := ''tok123''\<rparr>) [tokenGrant] \<and>
   \<not> authorized example_json_Unmarshal example_name_Parse (anonymous\<lparr>Token := ''TOK123''\<rparr>) [tokenGrant]"
proof -
  have ty: "GuardType tokenGrant = ''access_token''"
    by (simp add: tokenGrant_def)
  have id: "fst (example_json_Unmarshal (GuardData tokenGrant)) = ''tok123''"
    by (simp add: tokenGrant_def example_json_Unmarshal_def)
  from access_token_guard_matches_iff_id_equals_token
    [where g = tokenGrant and ju = example_json_Unmarshal and np = example_name_Parse
       and ctx = "anonymous\<lparr>Token := ''tok123''\<rparr>"] ty id
  have m1: "authorized example_json_Unmarshal example_name_Parse (anonymous\<lparr>Token := ''tok123''\<rparr>) [tokenGrant]"
    by simp
  from access_token_guard_matches_iff_id_equals_token
    [where g = tokenGrant and ju = example_json_Unmarshal and np = example_name_Parse
       and ctx = "anonymous\<lparr>Token := ''TOK123''\<rparr>"] ty id
  have m2: "\<not> authorized example_json_Unmarshal example_name_Parse (anonymous\<lparr>Token := ''TOK123''\<rparr>) [tokenGrant]"
    by simp
  from ty m1 m2 show ?thesis by blast
qed

text \<open>
  A grant whose payload does not decode is passed over in two cases: an x509 grant whose
  pattern does not parse, for every context; and an access-token grant whose decoded id
  is empty, for every context that presents a token.
\<close>

theorem undecodable_payload_is_passed_over:
  assumes "(GuardType g = ''x509'' \<and> np (GuardData g) = Inl err) \<or>
           (GuardType g = ''access_token'' \<and> fst (ju (GuardData g)) = '''' \<and> Token ctx \<noteq> '''')"
  shows "\<not> authorized ju np ctx [g] \<and>
         authorized ju np ctx (pre @ g # post) = authorized ju np ctx (pre @ post)"
proof -
  from assms have no: "\<not> authorized ju np ctx [g]"
  proof
    assume "GuardType g = ''x509'' \<and> np (GuardData g) = Inl err"
    then show ?thesis by (simp add: authorized_x509_single)
  next
    assume "GuardType g = ''access_token'' \<and> fst (ju (GuardData g)) = '''' \<and> Token ctx \<noteq> ''''"
    then show ?thesis by (auto simp: authorized_access_token_single accessTokenGuardData_def)
  qed
  from no authorized_skip [OF no] show ?thesis by blast
qed

theorem undecodable_payload_is_passed_over_witness:
  "GuardType (acmeGrant\<lparr>GuardData := ''O=''\<rparr>) = ''x509'' \<and>
   example_name_Parse (GuardData (acmeGrant\<lparr>GuardData := ''O=''\<rparr>)) = Inl (errors_New ''invalid distinguished name'') \<and>
   \<not> authorized example_json_Unmarshal example_name_Parse
       (anonymous\<lparr>X509Certs := [\<lparr>Subject = acmeName\<rparr>]\<rparr>) [acmeGrant\<lparr>GuardData := ''O=''\<rparr>] \<and>
   GuardType malformedTokenGrant = ''access_token'' \<and>
   fst (example_json_Unmarshal (GuardData malformedTokenGrant)) = '''' \<and>
   Token (anonymous\<lparr>Token := ''tok123''\<rparr>) \<noteq> '''' \<and>
   authorized example_json_Unmarshal example_name_Parse (anonymous\<lparr>Token := ''tok123''\<rparr>)
       ([] @ malformedTokenGrant # [tokenGrant])"
proof -
  have x1: "GuardType (acmeGrant\<lparr>GuardData := ''O=''\<rparr>) = ''x509''"
    by (simp add: acmeGrant_def)
  have x2: "example_name_Parse (GuardData (acmeGrant\<lparr>GuardData := ''O=''\<rparr>)) =
      Inl (errors_New ''invalid distinguished name'')"
    by (simp add: example_name_Parse_def)
  from undecodable_payload_is_passed_over
    [where g = "acmeGrant\<lparr>GuardData := ''O=''\<rparr>" and np = example_name_Parse
       and err = "errors_New ''invalid distinguished name''" and ju = example_json_Unmarshal
       and ctx = "anonymous\<lparr>X509Certs := [\<lparr>Subject = acmeName\<rparr>]\<rparr>"] x1 x2
  have x3: "\<not> authorized example_json_Unmarshal example_name_Parse
       (anonymous\<lparr>X509Certs := [\<lparr>Subject = acmeName\<rparr>]\<rparr>) [acmeGrant\<lparr>GuardData := ''O=''\<rparr>]"
    by blast
  have t1: "GuardType malformedTokenGrant = ''access_token''"
    by (simp add: malformedTokenGrant_def)
  have t2: "fst (example_json_Unmarshal (GuardData malformedTokenGrant)) = ''''"
    by (simp add: malformedTokenGrant_def example_json_Unmarshal_def)
  have t3: "Token (anonymous\<lparr>Token := ''tok123''\<rparr>) \<noteq> ''''"
    by simp
  have rest: "authorized example_json_Unmarshal example_name_Parse (anonymous\<lparr>Token := ''tok123''\<rparr>)
       ([] @ [tokenGrant])"
    by (simp add: tokenGrant_def accessTokenGuardData_def example_json_Unmarshal_def)
  from undecodable_payload_is_passed_over
    [where g = malformedTokenGrant and np = example_name_Parse and ju = example_json_Unmarshal
       and ctx = "anonymous\<lparr>Token := ''tok123''\<rparr>" and pre = "[]" and post = "[tokenGrant]"]
    t1 t2 t3 rest
  have t4: "authorized example_json_Unmarshal example_name_Parse (anonymous\<lparr>Token := ''tok123''\<rparr>)
       ([] @ malformedTokenGrant # [tokenGrant])"
    by blast
  from x1 x2 x3 t1 t2 t3 t4 show ?thesis by blast
qed

text \<open>
  A \<^verbatim>\<open>localhost\<close> guard matches exactly the contexts of loopback connections, and an
  \<^verbatim>\<open>any\<close> guard at the head of the list settles the answer for every context.
\<close>

theorem localhost_and_any_guards:
  "(GuardType g = ''localhost'' \<longrightarrow> authorized ju np ctx [g] = Localhost ctx) \<and>
   (GuardType g = ''any'' \<longrightarrow> authorized ju np ctx (g # grants))"
  by simp

theorem localhost_and_any_guards_witness:
  "\<not> authorized example_json_Unmarshal example_name_Parse (anonymous\<lparr>Token := ''tok123''\<rparr>)
       [tokenGrant\<lparr>GuardType := ''localhost''\<rparr>] \<and>
   authorized example_json_Unmarshal example_name_Parse (anonymous\<lparr>Localhost := True\<rparr>)
       [tokenGrant\<lparr>GuardType := ''localhost''\<rparr>] \<and>
   authorized example_json_Unmarshal example_name_Parse anonymous (builtinGrants @ [tokenGrant])"
proof -
  have l: "GuardType (tokenGrant\<lparr>GuardType := ''localhost''\<rparr>) = ''localhost''"
    by simp
  have a: "GuardType (hd builtinGrants) = ''any''" and b: "builtinGrants @ [tokenGrant] = hd builtinGrants # [tokenGrant]"
    by (simp_all add: builtinGrants_def)
  have r: "\<not> Localhost (anonymous\<lparr>Token := ''tok123''\<rparr>)" and y: "Localhost (anonymous\<lparr>Localhost := True\<rparr>)"
    by (simp_all add: anonymous_def)
  from localhost_and_any_guards
    [where g = "tokenGrant\<lparr>GuardType := ''localhost''\<rparr>" and ju = example_json_Unmarshal
       and np = example_name_Parse and ctx = "anonymous\<lparr>Token := ''tok123''\<rparr>"] l r
  have 1: "\<not> authorized example_json_Unmarshal example_name_Parse (anonymous\<lparr>Token := ''tok123''\<rparr>)
       [tokenGrant\<lparr>GuardType := ''localhost''\<rparr>]"
    by blast
  from localhost_and_any_guards
    [where g = "tokenGrant\<lparr>GuardType := ''localhost''\<rparr>" and ju = example_json_Unmarshal
       and np = example_name_Parse and ctx = "anonymous\<lparr>Localhost := True\<rparr>"] l y
  have 2: "authorized example_json_Unmarshal example_name_Parse (anonymous\<lparr>Localhost := True\<rparr>)
       [tokenGrant\<lparr>GuardType := ''localhost''\<rparr>]"
    by blast
  from localhost_and_any_guards
    [where g = "hd builtinGrants" and ju = example_json_Unmarshal
       and np = example_name_Parse and ctx = anonymous and grants = "[tokenGrant]"] a
  have "authorized example_json_Unmarshal example_name_Parse anonymous (hd builtinGrants # [tokenGrant])"
    by blast
  then have 3: "authorized example_json_Unmarshal example_name_Parse anonymous (builtinGrants @ [tokenGrant])"
    by (simp only: b)
  from 1 2 3 show ?thesis by blast
qed

text \<open>
  When no decoding fails, the fetched list is, policy by policy in the order given, the
  process-local grants of the policy (the builtin ones among them) followed by the
  grants stored for it.
\<close>

theorem grantsByPolicies_merges_in_order:
  assumes "grantsByPolicies pu a policies = Inr G"
  shows "G = concat (map (\<lambda>p. lookupGrants (extraGrants a) p @ storedGrants pu a p) policies)"
  using assms by (rule grantsByPolicies_Inr)

theorem grantsByPolicies_merges_in_order_witness:
  "grantsByPolicies example_proto_Unmarshal example_authorizer [''client-readwrite''] = Inr [tokenGrant] \<and>
   [tokenGrant] = concat (map (\<lambda>p. lookupGrants (extraGrants example_authorizer) p @
      storedGrants example_proto_Unmarshal example_authorizer p) [''client-readwrite''])"
  using grantsByPolicies_merges_in_order [OF example_fetch_client_readwrite]
    example_fetch_client_readwrite
  by blast

text \<open>
  A freshly constructed authorizer holds the builtin \<^verbatim>\<open>any\<close> grant under policy
  \<^verbatim>\<open>public\<close>: on a route whose only policy is \<^verbatim>\<open>public\<close>, with nothing stored for
  it, every request is authorized, whatever its context.
\<close>

theorem public_route_is_open_to_every_context:
  assumes "policyMap (TrimRight (RequestURI req) ''/'') = Some [''public'']"
    and "rdb (prefix @ ''public'') = None"
  shows "Authorize ju np pu (NewAuthorizer rdb prefix policyMap) req = Inr ()"
  using assms
  by (simp add: Authorize_def NewAuthorizer_def grantsByPolicies_def builtinGrants_def
      appendGrant_def lookupGrants_def)

theorem public_route_is_open_to_every_context_witness:
  "example_policyMap (TrimRight ''/info/'' ''/'') = Some [''public''] \<and>
   Authorize example_json_Unmarshal example_name_Parse example_proto_Unmarshal example_authorizer
     \<lparr>RequestURI = ''/info/'', reqContext = anonymous\<rparr> = Inr ()"
proof -
  have r: "example_policyMap (TrimRight (RequestURI \<lparr>RequestURI = ''/info/'', reqContext = anonymous\<rparr>) ''/'') =
      Some [''public'']"
    by (simp add: example_policyMap_def TrimRight_def)
  have s: "(Map.empty(''/core/grant/client-readwrite'' \<mapsto> ''grants:tok123'',
                  ''/core/grant/monitoring'' \<mapsto> ''garbage'')) (''/core/grant/'' @ ''public'') = None"
    by simp
  from public_route_is_open_to_every_context
    [where policyMap = example_policyMap and rdb = "Map.empty(''/core/grant/client-readwrite'' \<mapsto> ''grants:tok123'',
                  ''/core/grant/monitoring'' \<mapsto> ''garbage'')"
       and prefix = "''/core/grant/''" and ju = example_json_Unmarshal and np = example_name_Parse
       and pu = example_proto_Unmarshal, OF r s]
  have "Authorize example_json_Unmarshal example_name_Parse example_proto_Unmarshal example_authorizer
     \<lparr>RequestURI = ''/info/'', reqContext = anonymous\<rparr> = Inr ()"
    by (simp only: example_authorizer_def)
  with r show ?thesis by simp
qed

text \<open>
  Away from the empty-token comparison, \<^verbatim>\<open>Authorize\<close> decides as the specification's
  matcher does: when every access-token grant of the fetched list whose decoded id
  equals the token decoded without error and the token is not empty, the request is
  authorized if and only if the matcher accepts some grant of the list, and is refused
  with \<^verbatim>\<open>ErrNotAuthorized\<close> otherwise.
\<close>

theorem Authorize_succeeds_iff_spec_matcher_accepts_some_grant:
  assumes "policyByRoute a (TrimRight (RequestURI req) ''/'') = Some policies"
    and "policies \<noteq> []"
    and "grantsByPolicies pu a policies = Inr G"
    and "\<forall>g \<in> set G.
           GuardType g = ''access_token'' \<and> fst (ju (GuardData g)) = Token (reqContext req) \<longrightarrow>
           Token (reqContext req) \<noteq> '''' \<and> snd (ju (GuardData g)) = None"
  shows "(Authorize ju np pu a req = Inr () \<longleftrightarrow>
            (\<exists>g \<in> set G. spec_matches ju np (reqContext req) g)) \<and>
         (\<not> (\<exists>g \<in> set G. spec_matches ju np (reqContext req) g) \<longrightarrow>
            Authorize ju np pu a req = Inl ErrNotAuthorized)"
proof -
  have same: "authorized ju np (reqContext req) [g] = spec_matches ju np (reqContext req) g"
    if "g \<in> set G" for g
    using assms(4) that by (intro authorized_single_spec) blast
  then have "(\<exists>g \<in> set G. authorized ju np (reqContext req) [g]) =
      (\<exists>g \<in> set G. spec_matches ju np (reqContext req) g)"
    by blast
  with Authorize_or_over_grants [OF assms(1-3), of ju np] show ?thesis
    by auto
qed

theorem Authorize_succeeds_iff_spec_matcher_accepts_some_grant_witness:
  "policyByRoute example_authorizer (TrimRight ''/accounts/create/'' ''/'') = Some [''client-readwrite''] \<and>
   grantsByPolicies example_proto_Unmarshal example_authorizer [''client-readwrite''] = Inr [tokenGrant] \<and>
   spec_matches example_json_Unmarshal example_name_Parse (anonymous\<lparr>Token := ''tok123''\<rparr>) tokenGrant \<and>
   Authorize example_json_Unmarshal example_name_Parse example_proto_Unmarshal example_authorizer
     \<lparr>RequestURI = ''/accounts/create/'', reqContext = anonymous\<lparr>Token := ''tok123''\<rparr>\<rparr> = Inr () \<and>
   Authorize example_json_Unmarshal example_name_Parse example_proto_Unmarshal example_authorizer
     \<lparr>RequestURI = ''/accounts/create/'', reqContext = anonymous\<rparr> = Inl ErrNotAuthorized"
proof -
  have route: "policyByRoute example_authorizer (TrimRight ''/accounts/create/'' ''/'') = Some [''client-readwrite'']"
    by (simp add: example_authorizer_def NewAuthorizer_def example_policyMap_def TrimRight_def)
  have ne: "[''client-readwrite''] \<noteq> []"
    by simp
  note fetch = example_fetch_client_readwrite
  have id: "example_json_Unmarshal (GuardData tokenGrant) = (''tok123'', None)"
    and ty: "GuardType tokenGrant = ''access_token''"
    by (simp_all add: tokenGrant_def example_json_Unmarshal_def)
  have ok1: "\<forall>g \<in> set [tokenGrant].
      GuardType g = ''access_token'' \<and>
      fst (example_json_Unmarshal (GuardData g)) = Token (anonymous\<lparr>Token := ''tok123''\<rparr>) \<longrightarrow>
      Token (anonymous\<lparr>Token := ''tok123''\<rparr>) \<noteq> '''' \<and> snd (example_json_Unmarshal (GuardData g)) = None"
    by (simp add: id)
  have ok2: "\<forall>g \<in> set [tokenGrant].
      GuardType g = ''access_token'' \<and>
      fst (example_json_Unmarshal (GuardData g)) = Token anonymous \<longrightarrow>
      Token anonymous \<noteq> '''' \<and> snd (example_json_Unmarshal (GuardData g)) = None"
    by (simp add: id anonymous_def)
  have yes: "spec_matches example_json_Unmarshal example_name_Parse (anonymous\<lparr>Token := ''tok123''\<rparr>) tokenGrant"
    by (simp add: spec_matches_def id ty)
  have no: "\<not> (\<exists>g \<in> set [tokenGrant]. spec_matches example_json_Unmarshal example_name_Parse anonymous g)"
    by (simp add: spec_matches_def id ty anonymous_def)
  from Authorize_succeeds_iff_spec_matcher_accepts_some_grant
    [where a = example_authorizer
       and req = "\<lparr>RequestURI = ''/accounts/create/'', reqContext = anonymous\<lparr>Token := ''tok123''\<rparr>\<rparr>"
       and policies = "[''client-readwrite'']" and pu = example_proto_Unmarshal and G = "[tokenGrant]"
       and ju = example_json_Unmarshal and np = example_name_Parse]
    route ne fetch ok1 yes
  have permit: "Authorize example_json_Unmarshal example_name_Parse example_proto_Unmarshal example_authorizer
     \<lparr>RequestURI = ''/accounts/create/'', reqContext = anonymous\<lparr>Token := ''tok123''\<rparr>\<rparr> = Inr ()"
    by simp
  from Authorize_succeeds_iff_spec_matcher_accepts_some_grant
    [where a = example_authorizer
       and req = "\<lparr>RequestURI = ''/accounts/create/'', reqContext = anonymous\<rparr>"
       and policies = "[''client-readwrite'']" and pu = example_proto_Unmarshal and G = "[tokenGrant]"
       and ju = example_json_Unmarshal and np = example_name_Parse]
    route ne fetch ok2 no
  have deny: "Authorize example_json_Unmarshal example_name_Parse example_proto_Unmarshal example_authorizer
     \<lparr>RequestURI = ''/accounts/create/'', reqContext = anonymous\<rparr> = Inl ErrNotAuthorized"
    by simp
  from route fetch yes permit deny show ?thesis by blast
qed

end
